theory Spec2Isabelle
  imports Complex_Main "HOL-Library.Multiset" "HOL-Library.Word"
begin

section \<open>Kyushu temperature map: the retrieval and presentation pipeline\<close>

text \<open>
  The program (\<^verbatim>\<open>streamlit_app.py\<close>) fetches an hourly temperature series for seven
  fixed cities, flattens the series into one table, derives an elevation and a colour
  from each temperature and shows the rows of one selected timestamp.

  Conventions of the embedding.
  \<^item> A Python float is a real number that the floating-point format represents; every
    arithmetic operation computes the exact real result and rounds it with a rounding
    function \<open>fl\<close>, the first argument of each numeric definition. The theorems hold for
    every rounding that is monotone and exact on the half-integers up to \<open>2^53\<close>
    (\<open>rounding\<close> below); exact real arithmetic is the instance \<open>fl = (\<lambda>x. x)\<close>.
  \<^item> An exception is a value of type \<open>exn\<close>; code that may raise returns \<open>exn + 'a\<close>.
  \<^item> The source's variable \<^verbatim>\<open>times\<close> is written \<open>times'\<close>.
  \<^item> The network (\<^verbatim>\<open>requests.get\<close>), the timestamp parser (\<^verbatim>\<open>pd.to_datetime\<close>) and
    the slider widget (\<^verbatim>\<open>st.slider\<close>) are parameters: functions from what the program
    passes them to what they return or raise.
  \<^item> \<^verbatim>\<open>st.error\<close> appends to a list of messages that is passed along.
  \<^item> The retrieval is polymorphic in the elements of the two arrays. The presentation
    reads a temperature as \<^verbatim>\<open>json\<close> decodes a number or \<^verbatim>\<open>null\<close>: an integer, a float
    (finite, infinite or NaN) or \<^verbatim>\<open>None\<close>, and the column as pandas holds it (int64,
    float64 or object). Integers outside the int64 range, elements that are not numbers
    and the missing timestamp \<^verbatim>\<open>NaT\<close> are outside the model.
  \<^item> The ten-minute cache of \<^verbatim>\<open>fetch_weather_data\<close> and the widgets after line 89 are
    not modelled.
\<close>

subsection \<open>Static configuration (lines 12-20)\<close>

record coords =
  lat :: real
  lon :: real

definition kyushu_capitals :: "(string \<times> coords) list" where
  "kyushu_capitals =
     [(''Fukuoka'',   \<lparr>lat = 33.5904, lon = 130.4017\<rparr>),
      (''Saga'',      \<lparr>lat = 33.2494, lon = 130.2974\<rparr>),
      (''Nagasaki'',  \<lparr>lat = 32.7450, lon = 129.8739\<rparr>),
      (''Kumamoto'',  \<lparr>lat = 32.7900, lon = 130.7420\<rparr>),
      (''Oita'',      \<lparr>lat = 33.2381, lon = 131.6119\<rparr>),
      (''Miyazaki'',  \<lparr>lat = 31.9110, lon = 131.4240\<rparr>),
      (''Kagoshima'', \<lparr>lat = 31.5600, lon = 130.5580\<rparr>)]"

subsection \<open>Floating-point arithmetic\<close>

definition rounding :: "(real \<Rightarrow> real) \<Rightarrow> bool" where
  "rounding fl \<longleftrightarrow>
     (\<forall>x y. x \<le> y \<longrightarrow> fl x \<le> fl y) \<and>
     (\<forall>n::int. \<bar>n\<bar> \<le> 2 ^ 53 \<longrightarrow> fl (real_of_int n / 2) = real_of_int n / 2)"

text \<open>Rounding to the nearest half-integer (ties upwards): a rounding that loses digits.\<close>

definition half_grid :: "real \<Rightarrow> real" where
  "half_grid x = real_of_int \<lfloor>x * 2 + 1 / 2\<rfloor> / 2"

text \<open>Python's \<^verbatim>\<open>int(x)\<close> on a float truncates towards zero.\<close>

definition py_int :: "real \<Rightarrow> int" where
  "py_int x = (if 0 \<le> x then \<lfloor>x\<rfloor> else \<lceil>x\<rceil>)"

text \<open>\<^verbatim>\<open>np.clip(x, lo, hi)\<close> is \<^verbatim>\<open>minimum(maximum(x, lo), hi)\<close>.\<close>

definition clip :: "real \<Rightarrow> real \<Rightarrow> real \<Rightarrow> real" where
  "clip x lo hi = min (max x lo) hi"

subsection \<open>Temperature to colour (lines 23-29)\<close>

definition normalized :: "(real \<Rightarrow> real) \<Rightarrow> real \<Rightarrow> real" where
  "normalized fl temp = clip (fl (fl (temp + 5) / 40)) 0 1"

definition temp_to_color :: "(real \<Rightarrow> real) \<Rightarrow> real \<Rightarrow> int list" where
  "temp_to_color fl temp =
     (let t = normalized fl temp;
          r = py_int (fl (255 * t));
          g = py_int (fl (255 * fl (1 - fl (\<bar>fl (t - 0.5)\<bar> * 2))));
          b = py_int (fl (255 * fl (1 - t)))
      in [r, g, b, 180])"

definition red :: "(real \<Rightarrow> real) \<Rightarrow> real \<Rightarrow> int" where
  "red fl temp = temp_to_color fl temp ! 0"

definition green :: "(real \<Rightarrow> real) \<Rightarrow> real \<Rightarrow> int" where
  "green fl temp = temp_to_color fl temp ! 1"

definition blue :: "(real \<Rightarrow> real) \<Rightarrow> real \<Rightarrow> int" where
  "blue fl temp = temp_to_color fl temp ! 2"

text \<open>
  The green channel before truncation, as a function of the normalised temperature \<open>t\<close>
  (the argument of \<^verbatim>\<open>int\<close> on line 27).
\<close>

definition green_of :: "(real \<Rightarrow> real) \<Rightarrow> real \<Rightarrow> real" where
  "green_of fl t = fl (255 * fl (1 - fl (\<bar>fl (t - 1 / 2)\<bar> * 2)))"

subsection \<open>Exceptions, the forecast service and its responses\<close>

datatype exn =
  ConnectionError | HTTPError nat | JSONDecodeError | KeyError string | TypeError | ValueError

record params =
  latitude :: real
  longitude :: real
  hourly :: string
  timezone :: string
  past_days :: nat

text \<open>
  The decoded body is read through two keys only: \<^verbatim>\<open>data['hourly']['time']\<close> and
  \<^verbatim>\<open>data['hourly']['temperature_2m']\<close>. A key that is absent is \<open>None\<close>. The elements of
  the two arrays are of any type \<open>'r\<close> and \<open>'v\<close>: the retrieval never inspects a
  temperature, and hands each element of \<^verbatim>\<open>time\<close> to the timestamp parser.
\<close>

record ('r, 'v) hourly_series =
  time_key :: "'r list option"
  temperature_2m_key :: "'v list option"

record ('r, 'v) body =
  hourly_key :: "('r, 'v) hourly_series option"

text \<open>\<open>json\<close> is what \<^verbatim>\<open>response.json()\<close> returns or raises.\<close>

record ('r, 'v) response =
  status_code :: nat
  json :: "exn + ('r, 'v) body"

text \<open>\<^verbatim>\<open>Response.raise_for_status\<close> raises for the client and server error statuses.\<close>

definition raise_for_status :: "('r, 'v) response \<Rightarrow> exn + unit" where
  "raise_for_status response =
     (if 400 \<le> status_code response \<and> status_code response < 600
      then Inl (HTTPError (status_code response)) else Inr ())"

subsection \<open>Retrieval (lines 33-65)\<close>

text \<open>One entry of \<^verbatim>\<open>weather_info\<close>: the dictionary appended on lines 54-60.\<close>

record ('ts, 'v) row = coords +
  City :: string
  time :: "'ts"
  Temperature :: "'v"

text \<open>Lines 38-51: the request and the two arrays, or the exception raised on the way.\<close>

definition request ::
  "(params \<Rightarrow> exn + ('r, 'v) response) \<Rightarrow> coords \<Rightarrow> exn + ('r list \<times> 'v list)" where
  "request requests_get c =
     (case requests_get \<lparr>latitude = lat c, longitude = lon c, hourly = ''temperature_2m'',
                          timezone = ''Asia/Tokyo'', past_days = 1\<rparr> of
        Inl e \<Rightarrow> Inl e
      | Inr response \<Rightarrow>
          (case raise_for_status response of
             Inl e \<Rightarrow> Inl e
           | Inr _ \<Rightarrow>
               (case json response of
                  Inl e \<Rightarrow> Inl e
                | Inr data \<Rightarrow>
                    (case hourly_key data of
                       None \<Rightarrow> Inl (KeyError ''hourly'')
                     | Some h \<Rightarrow>
                         (case time_key h of
                            None \<Rightarrow> Inl (KeyError ''time'')
                          | Some times' \<Rightarrow>
                              (case temperature_2m_key h of
                                 None \<Rightarrow> Inl (KeyError ''temperature_2m'')
                               | Some temps \<Rightarrow> Inr (times', temps)))))))"

text \<open>
  Lines 53-60: the loop over \<^verbatim>\<open>zip(times, temps)\<close>. It appends one row per pair and stops
  at the first timestamp that \<^verbatim>\<open>pd.to_datetime\<close> rejects; the rows appended before stay
  in \<^verbatim>\<open>weather_info\<close>.
\<close>

fun append_samples ::
  "('r \<Rightarrow> exn + 'ts) \<Rightarrow> string \<Rightarrow> coords \<Rightarrow> ('r \<times> 'v) list \<Rightarrow> ('ts, 'v) row list \<Rightarrow>
   exn option \<times> ('ts, 'v) row list" where
  "append_samples to_datetime city c [] weather_info = (None, weather_info)"
| "append_samples to_datetime city c ((t, temp) # rest) weather_info =
     (case to_datetime t of
        Inl e \<Rightarrow> (Some e, weather_info)
      | Inr ts \<Rightarrow>
          append_samples to_datetime city c rest
            (weather_info @ [\<lparr>lat = lat c, lon = lon c, City = city, time = ts,
                              Temperature = temp\<rparr>]))"

text \<open>
  Lines 37-63: one iteration of the loop over the cities. The state is \<^verbatim>\<open>weather_info\<close>
  and the messages shown by \<^verbatim>\<open>st.error\<close>, each the city and the exception of
  \<^verbatim>\<open>f"Error fetching {city}: {e}"\<close>.
\<close>

definition fetch_city ::
  "(params \<Rightarrow> exn + ('r, 'v) response) \<Rightarrow> ('r \<Rightarrow> exn + 'ts) \<Rightarrow> string \<times> coords \<Rightarrow>
   ('ts, 'v) row list \<times> (string \<times> exn) list \<Rightarrow> ('ts, 'v) row list \<times> (string \<times> exn) list" where
  "fetch_city requests_get to_datetime loc st =
     (case (loc, st) of ((city, c), (weather_info, errors)) \<Rightarrow>
        (case request requests_get c of
           Inl e \<Rightarrow> (weather_info, errors @ [(city, e)])
         | Inr (times', temps) \<Rightarrow>
             (case append_samples to_datetime city c (zip times' temps) weather_info of
                (None, weather_info') \<Rightarrow> (weather_info', errors)
              | (Some e, weather_info') \<Rightarrow> (weather_info', errors @ [(city, e)]))))"

fun fetch_loop ::
  "(params \<Rightarrow> exn + ('r, 'v) response) \<Rightarrow> ('r \<Rightarrow> exn + 'ts) \<Rightarrow> (string \<times> coords) list \<Rightarrow>
   ('ts, 'v) row list \<times> (string \<times> exn) list \<Rightarrow> ('ts, 'v) row list \<times> (string \<times> exn) list" where
  "fetch_loop requests_get to_datetime [] st = st"
| "fetch_loop requests_get to_datetime (loc # locs) st =
     fetch_loop requests_get to_datetime locs (fetch_city requests_get to_datetime loc st)"

text \<open>
  \<^verbatim>\<open>pd.DataFrame(weather_info)\<close>: the columns are the keys of the dictionaries, so a
  frame built from the empty list has no column at all.
\<close>

record 'a dataframe =
  columns :: "string list"
  rows :: "'a list"

definition DataFrame :: "('ts, 'v) row list \<Rightarrow> ('ts, 'v) row dataframe" where
  "DataFrame weather_info =
     \<lparr>columns = (if weather_info = [] then []
                 else [''City'', ''lat'', ''lon'', ''time'', ''Temperature'']),
      rows = weather_info\<rparr>"

definition fetch_weather_data ::
  "(params \<Rightarrow> exn + ('r, 'v) response) \<Rightarrow> ('r \<Rightarrow> exn + 'ts) \<Rightarrow>
   ('ts, 'v) row dataframe \<times> (string \<times> exn) list" where
  "fetch_weather_data requests_get to_datetime =
     (case fetch_loop requests_get to_datetime kyushu_capitals ([], []) of
        (weather_info, errors) \<Rightarrow> (DataFrame weather_info, errors))"

text \<open>What one city adds to an empty state: its rows and its messages.\<close>

definition city_rows ::
  "(params \<Rightarrow> exn + ('r, 'v) response) \<Rightarrow> ('r \<Rightarrow> exn + 'ts) \<Rightarrow> string \<times> coords \<Rightarrow>
   ('ts, 'v) row list" where
  "city_rows requests_get to_datetime loc = fst (fetch_city requests_get to_datetime loc ([], []))"

definition city_errors ::
  "(params \<Rightarrow> exn + ('r, 'v) response) \<Rightarrow> ('r \<Rightarrow> exn + 'ts) \<Rightarrow> string \<times> coords \<Rightarrow>
   (string \<times> exn) list" where
  "city_errors requests_get to_datetime loc = snd (fetch_city requests_get to_datetime loc ([], []))"




subsection \<open>Numbers as Python and pandas hold them\<close>

text \<open>
  A double is finite, an infinity or NaN. An operation on finite doubles gives the rounded
  exact result, or an infinity when the rounded result lies beyond the largest double
  (\<open>fl\<close> rounds with an unbounded exponent, so this is the overflow rule of IEEE 754).
\<close>

datatype float64 = Finite real | PosInf | NegInf | NaN

definition max_float :: real where
  "max_float = (2 ^ 53 - 1) * 2 ^ 971"

definition rounded :: "(real \<Rightarrow> real) \<Rightarrow> real \<Rightarrow> float64" where
  "rounded fl x =
     (if max_float < fl x then PosInf
      else if fl x < - max_float then NegInf
      else Finite (fl x))"

text \<open>
  An element of \<^verbatim>\<open>temperature_2m\<close> as \<^verbatim>\<open>response.json()\<close> returns it: a Python \<^verbatim>\<open>int\<close>
  (here within the int64 range), a \<^verbatim>\<open>float\<close> or \<^verbatim>\<open>None\<close>.
\<close>

datatype pynum = PyInt "64 word" | PyFloat float64 | PyNone

fun as_int :: "pynum \<Rightarrow> 64 word option" where
  "as_int (PyInt n) = Some n"
| "as_int (PyFloat f) = None"
| "as_int PyNone = None"

text \<open>In a float64 column an integer is the nearest double and \<^verbatim>\<open>None\<close> is NaN.\<close>

fun as_float64 :: "(real \<Rightarrow> real) \<Rightarrow> pynum \<Rightarrow> float64" where
  "as_float64 fl (PyInt n) = Finite (fl (real_of_int (sint n)))"
| "as_float64 fl (PyFloat f) = f"
| "as_float64 fl PyNone = NaN"

text \<open>
  The \<^verbatim>\<open>Temperature\<close> column as the table holds it. \<^verbatim>\<open>pd.DataFrame\<close> gives the column one
  dtype: int64 when every element is an integer, object when every element is \<^verbatim>\<open>None\<close>,
  float64 otherwise.
\<close>

datatype column = Int64 "64 word list" | Float64 "float64 list" | Object "pynum list"

definition column_of :: "(real \<Rightarrow> real) \<Rightarrow> pynum list \<Rightarrow> column" where
  "column_of fl vs =
     (case those (map as_int vs) of
        Some ns \<Rightarrow> Int64 ns
      | None \<Rightarrow>
          if list_all (\<lambda>v. v = PyNone) vs then Object vs
          else Float64 (map (as_float64 fl) vs))"

subsection \<open>Presentation (lines 69-89)\<close>

text \<open>\<^verbatim>\<open>df['Temperature']\<close>, on lines 72 and 73.\<close>

definition getitem_Temperature ::
  "(real \<Rightarrow> real) \<Rightarrow> ('ts, pynum, 'z) row_scheme dataframe \<Rightarrow> exn + column" where
  "getitem_Temperature fl df =
     (if ''Temperature'' \<in> set (columns df)
      then Inr (column_of fl (map Temperature (rows df)))
      else Inl (KeyError ''Temperature''))"

text \<open>
  Line 72: \<^verbatim>\<open>df['elevation'] = df['Temperature'] * 3000\<close>. The product is taken in the
  dtype of the column: int64 products wrap around, float64 products round, keep NaN and
  the infinities and overflow to an infinity, and \<^verbatim>\<open>None * 3000\<close> raises \<^verbatim>\<open>TypeError\<close>.
\<close>

datatype num = I64 "64 word" | F64 float64

fun times_3000 :: "(real \<Rightarrow> real) \<Rightarrow> float64 \<Rightarrow> float64" where
  "times_3000 fl (Finite x) = rounded fl (x * 3000)"
| "times_3000 fl PosInf = PosInf"
| "times_3000 fl NegInf = NegInf"
| "times_3000 fl NaN = NaN"

fun mul_3000 :: "(real \<Rightarrow> real) \<Rightarrow> column \<Rightarrow> exn + num list" where
  "mul_3000 fl (Int64 ns) = Inr (map (\<lambda>n. I64 (n * 3000)) ns)"
| "mul_3000 fl (Float64 fs) = Inr (map (\<lambda>f. F64 (times_3000 fl f)) fs)"
| "mul_3000 fl (Object vs) = Inl TypeError"

record ('ts, 'v) erow = "('ts, 'v) row" +
  elevation :: num

definition with_elevation ::
  "(real \<Rightarrow> real) \<Rightarrow> ('ts, pynum) row dataframe \<Rightarrow> exn + ('ts, pynum) erow dataframe" where
  "with_elevation fl df =
     (case getitem_Temperature fl df of
        Inl e \<Rightarrow> Inl e
      | Inr col \<Rightarrow>
          (case mul_3000 fl col of
             Inl e \<Rightarrow> Inl e
           | Inr es \<Rightarrow>
               Inr \<lparr>columns = columns df @ [''elevation''],
                    rows = map2 (\<lambda>r e. \<lparr>lat = lat r, lon = lon r, City = City r, time = time r,
                                         Temperature = Temperature r, elevation = e\<rparr>)
                             (rows df) es\<rparr>))"

text \<open>
  Line 73: \<^verbatim>\<open>df['color'] = df['Temperature'].apply(temp_to_color)\<close>. \<^verbatim>\<open>apply\<close> hands each
  element to \<open>temp_to_color\<close> as a Python object. \<open>channels\<close> is lines 26-29, from the
  normalised temperature on. For an \<^verbatim>\<open>int\<close> the sum \<^verbatim>\<open>temp + 5\<close> is exact and the division
  rounds once; an infinity is clipped to 1 or 0; with NaN, \<^verbatim>\<open>int(255 * t)\<close> raises
  \<^verbatim>\<open>ValueError\<close>; \<^verbatim>\<open>None + 5\<close> raises \<^verbatim>\<open>TypeError\<close>.
\<close>

definition channels :: "(real \<Rightarrow> real) \<Rightarrow> real \<Rightarrow> int list" where
  "channels fl t =
     (let r = py_int (fl (255 * t));
          g = py_int (fl (255 * fl (1 - fl (\<bar>fl (t - 0.5)\<bar> * 2))));
          b = py_int (fl (255 * fl (1 - t)))
      in [r, g, b, 180])"

definition int_to_color :: "(real \<Rightarrow> real) \<Rightarrow> 64 word \<Rightarrow> int list" where
  "int_to_color fl n = channels fl (clip (fl (real_of_int (sint n + 5) / 40)) 0 1)"

fun float_to_color :: "(real \<Rightarrow> real) \<Rightarrow> float64 \<Rightarrow> exn + int list" where
  "float_to_color fl (Finite x) = Inr (temp_to_color fl x)"
| "float_to_color fl PosInf = Inr (channels fl 1)"
| "float_to_color fl NegInf = Inr (channels fl 0)"
| "float_to_color fl NaN = Inl ValueError"

text \<open>The results of the calls in order, up to the first one that raises.\<close>

fun collect :: "(exn + 'a) list \<Rightarrow> exn + 'a list" where
  "collect [] = Inr []"
| "collect (x # xs) =
     (case x of
        Inl e \<Rightarrow> Inl e
      | Inr v \<Rightarrow> (case collect xs of Inl e \<Rightarrow> Inl e | Inr vs \<Rightarrow> Inr (v # vs)))"

fun apply_temp_to_color :: "(real \<Rightarrow> real) \<Rightarrow> column \<Rightarrow> exn + int list list" where
  "apply_temp_to_color fl (Int64 ns) = Inr (map (int_to_color fl) ns)"
| "apply_temp_to_color fl (Float64 fs) = collect (map (float_to_color fl) fs)"
| "apply_temp_to_color fl (Object vs) = Inl TypeError"

record ('ts, 'v) crow = "('ts, 'v) erow" +
  color :: "int list"

definition with_color ::
  "(real \<Rightarrow> real) \<Rightarrow> ('ts, pynum) erow dataframe \<Rightarrow> exn + ('ts, pynum) crow dataframe" where
  "with_color fl df =
     (case getitem_Temperature fl df of
        Inl e \<Rightarrow> Inl e
      | Inr col \<Rightarrow>
          (case apply_temp_to_color fl col of
             Inl e \<Rightarrow> Inl e
           | Inr cs \<Rightarrow>
               Inr \<lparr>columns = columns df @ [''color''],
                    rows = map2 (\<lambda>r c. \<lparr>lat = lat r, lon = lon r, City = City r, time = time r,
                                         Temperature = Temperature r, elevation = elevation r,
                                         color = c\<rparr>)
                             (rows df) cs\<rparr>))"

text \<open>
  Line 78 reads the \<^verbatim>\<open>time\<close> column and writes it back as Python datetimes: the
  timestamps keep their values.
\<close>

definition to_pydatetime :: "'a dataframe \<Rightarrow> exn + 'a dataframe" where
  "to_pydatetime df = (if ''time'' \<in> set (columns df) then Inr df else Inl (KeyError ''time''))"

text \<open>
  Lines 82-84: the minimum and the maximum of the \<^verbatim>\<open>time\<close> column; of an empty column
  they are the missing value, \<open>None\<close>.
\<close>

fun col_min :: "'ts::linorder list \<Rightarrow> 'ts option" where
  "col_min [] = None"
| "col_min (x # xs) = Some (fold min xs x)"

fun col_max :: "'ts::linorder list \<Rightarrow> 'ts option" where
  "col_max [] = None"
| "col_max (x # xs) = Some (fold max xs x)"

text \<open>Line 89: \<^verbatim>\<open>df_selected = df[df['time'] == selected_time]\<close>.\<close>

definition df_selected ::
  "('ts, 'v, 'z) row_scheme dataframe \<Rightarrow> 'ts \<Rightarrow> exn + ('ts, 'v, 'z) row_scheme dataframe" where
  "df_selected df selected_time =
     (if ''time'' \<in> set (columns df)
      then Inr (df\<lparr>rows := filter (\<lambda>r. time r = selected_time) (rows df)\<rparr>)
      else Inl (KeyError ''time''))"

text \<open>
  Lines 69-89 in order. The slider is a parameter: given the minimum, the maximum and the
  default value it returns the time the user selected, or raises. The result is the
  messages shown and either the exception that ends the script or the selected rows.
\<close>

definition pipeline ::
  "(real \<Rightarrow> real) \<Rightarrow> (params \<Rightarrow> exn + ('r, pynum) response) \<Rightarrow> ('r \<Rightarrow> exn + 'ts::linorder) \<Rightarrow>
   ('ts option \<Rightarrow> 'ts option \<Rightarrow> 'ts option \<Rightarrow> exn + 'ts) \<Rightarrow>
   (string \<times> exn) list \<times> (exn + ('ts, pynum) crow dataframe)" where
  "pipeline fl requests_get to_datetime slider =
     (case fetch_weather_data requests_get to_datetime of
        (df, errors) \<Rightarrow>
          (errors,
           case with_elevation fl df of
             Inl e \<Rightarrow> Inl e
           | Inr df1 \<Rightarrow>
               (case with_color fl df1 of
                  Inl e \<Rightarrow> Inl e
                | Inr df2 \<Rightarrow>
                    (case to_pydatetime df2 of
                       Inl e \<Rightarrow> Inl e
                     | Inr df3 \<Rightarrow>
                         (case slider (col_min (map time (rows df3)))
                                 (col_max (map time (rows df3)))
                                 (col_min (map time (rows df3))) of
                            Inl e \<Rightarrow> Inl e
                          | Inr selected_time \<Rightarrow> df_selected df3 selected_time)))))"

subsection \<open>Example inputs\<close>

text \<open>
  A small world on which the properties below are exercised: a parser that knows two
  timestamps (hours 0 and 1) and rejects everything else, and a service that answers every
  city with the same two samples except Saga (latitude 33.2494), whose outcome is the
  argument.
\<close>

definition demo_to_datetime :: "string \<Rightarrow> exn + nat" where
  "demo_to_datetime s =
     (if s = ''2024-01-01T00:00'' then Inr 0
      else if s = ''2024-01-01T01:00'' then Inr 1
      else Inl ValueError)"

definition demo_response :: "string list \<Rightarrow> real list \<Rightarrow> (string, real) response" where
  "demo_response ts vs =
     \<lparr>status_code = 200,
      json = Inr \<lparr>hourly_key = Some \<lparr>time_key = Some ts, temperature_2m_key = Some vs\<rparr>\<rparr>\<rparr>"

definition demo_get ::
  "exn + (string, real) response \<Rightarrow> params \<Rightarrow> exn + (string, real) response" where
  "demo_get saga p =
     (if latitude p = 33.2494 then saga
      else Inr (demo_response [''2024-01-01T00:00'', ''2024-01-01T01:00''] [10.5, - 2]))"

definition demo_down :: "params \<Rightarrow> exn + ('r, 'v) response" where
  "demo_down p = Inl ConnectionError"

text \<open>
  Four tables for line 72: temperatures read as floats (with a \<^verbatim>\<open>null\<close> and an integer
  among them), as integers, an integer whose product with 3000 does not fit int64, and
  a table whose temperatures are all \<^verbatim>\<open>null\<close>.
\<close>

definition demo_floats :: "(nat, pynum) row dataframe" where
  "demo_floats = DataFrame
     [\<lparr>lat = 33.5904, lon = 130.4017, City = ''Fukuoka'', time = 0,
       Temperature = PyFloat (Finite 10.5)\<rparr>,
      \<lparr>lat = 33.5904, lon = 130.4017, City = ''Fukuoka'', time = 1,
       Temperature = PyFloat (Finite (- 2))\<rparr>,
      \<lparr>lat = 33.2494, lon = 130.2974, City = ''Saga'', time = 0, Temperature = PyNone\<rparr>,
      \<lparr>lat = 33.2494, lon = 130.2974, City = ''Saga'', time = 1, Temperature = PyInt 7\<rparr>]"




section \<open>Properties of the colour mapping\<close>

lemma rounding_id: "rounding (\<lambda>x. x)"
  by (simp add: rounding_def)

lemma rounding_mono: "rounding fl \<Longrightarrow> x \<le> y \<Longrightarrow> fl x \<le> fl y"
  by (simp add: rounding_def)

lemma rounding_half: "rounding fl \<Longrightarrow> \<bar>n\<bar> \<le> 2 ^ 53 \<Longrightarrow> fl (real_of_int n / 2) = real_of_int n / 2"
  by (simp add: rounding_def)

lemma rounding_int:
  assumes "rounding fl" and "\<bar>n\<bar> \<le> 2 ^ 52"
  shows "fl (real_of_int n) = real_of_int n"
proof -
  have "\<bar>2 * n\<bar> \<le> 2 ^ 53" using assms(2) by simp
  from rounding_half [OF assms(1) this] show ?thesis by simp
qed

lemma rounding_0: "rounding fl \<Longrightarrow> fl 0 = 0"
  using rounding_int [of fl 0] by simp

lemma rounding_1: "rounding fl \<Longrightarrow> fl 1 = 1"
  using rounding_int [of fl 1] by simp

lemma rounding_255: "rounding fl \<Longrightarrow> fl 255 = 255"
  using rounding_int [of fl 255] by simp

lemma rounding_40: "rounding fl \<Longrightarrow> fl 40 = 40"
  using rounding_int [of fl 40] by simp

lemma rounding_20: "rounding fl \<Longrightarrow> fl 20 = 20"
  using rounding_int [of fl 20] by simp

lemma rounding_one_half: "rounding fl \<Longrightarrow> fl (1 / 2) = 1 / 2"
  using rounding_half [of fl 1] by simp

lemma rounding_255_half: "rounding fl \<Longrightarrow> fl (255 / 2) = 255 / 2"
  using rounding_half [of fl 255] by simp

lemma half_grid_rounding: "rounding half_grid"
proof -
  have "half_grid (real_of_int n / 2) = real_of_int n / 2" for n
  proof -
    have "\<lfloor>real_of_int n + 1 / 2\<rfloor> = n" by linarith
    then show ?thesis by (simp add: half_grid_def)
  qed
  moreover have "half_grid x \<le> half_grid y" if "x \<le> y" for x y
    using that by (simp add: half_grid_def floor_mono divide_right_mono)
  ultimately show ?thesis by (simp add: rounding_def)
qed

lemma normalized_cold:
  assumes "rounding fl" and "temp \<le> - 5"
  shows "normalized fl temp = 0"
proof -
  have "fl (temp + 5) \<le> fl 0" using assms by (simp add: rounding_mono)
  then have "fl (temp + 5) / 40 \<le> 0" using assms(1) by (simp add: rounding_0)
  then have "fl (fl (temp + 5) / 40) \<le> fl 0" by (rule rounding_mono [OF assms(1)])
  then show ?thesis using assms(1) by (simp add: normalized_def clip_def rounding_0)
qed

lemma normalized_hot:
  assumes "rounding fl" and "35 \<le> temp"
  shows "normalized fl temp = 1"
proof -
  have "fl 40 \<le> fl (temp + 5)" using assms by (simp add: rounding_mono)
  then have "1 \<le> fl (temp + 5) / 40" using assms(1) by (simp add: rounding_40)
  then have "fl 1 \<le> fl (fl (temp + 5) / 40)" by (rule rounding_mono [OF assms(1)])
  then show ?thesis using assms(1) by (simp add: normalized_def clip_def rounding_1)
qed

lemma color_at_0:
  assumes "rounding fl" and "normalized fl temp = 0"
  shows "temp_to_color fl temp = [0, 0, 255, 180]"
proof -
  have h: "fl (- (1 / 2)) = - (1 / 2)" using rounding_half [OF assms(1), of "- 1"] by simp
  show ?thesis
    using assms by (simp add: temp_to_color_def py_int_def rounding_0 rounding_1 rounding_255 h)
qed

lemma color_at_1:
  assumes "rounding fl" and "normalized fl temp = 1"
  shows "temp_to_color fl temp = [255, 0, 0, 180]"
  using assms
  by (simp add: temp_to_color_def py_int_def rounding_0 rounding_1 rounding_255 rounding_one_half)

text \<open>
  C1. For every temperature \<open>temp \<le> -5\<close> the colour is exactly \<open>[0, 0, 255, 180]\<close>, and
  for every \<open>temp \<ge> 35\<close> it is exactly \<open>[255, 0, 0, 180]\<close>: outside the nominal range
  \<open>[-5, 35]\<close> the colour is the colour of the nearer boundary, not an extrapolation.
\<close>

theorem temp_to_color_saturates:
  assumes "rounding fl"
  shows "(temp \<le> - 5 \<longrightarrow> temp_to_color fl temp = [0, 0, 255, 180] \<and>
            temp_to_color fl temp = temp_to_color fl (- 5)) \<and>
         (35 \<le> temp \<longrightarrow> temp_to_color fl temp = [255, 0, 0, 180] \<and>
            temp_to_color fl temp = temp_to_color fl 35)"
  using assms
  by (simp add: color_at_0 color_at_1 normalized_cold normalized_hot)

theorem temp_to_color_saturates_witness:
  "rounding half_grid \<and> (- 7.3 :: real) \<le> - 5 \<and>
   temp_to_color half_grid (- 7.3) = [0, 0, 255, 180] \<and>
   (35 :: real) \<le> 41.2 \<and> temp_to_color half_grid 41.2 = [255, 0, 0, 180]"
  using temp_to_color_saturates [OF half_grid_rounding, of "- 7.3"]
    temp_to_color_saturates [OF half_grid_rounding, of "41.2"] half_grid_rounding
  by simp

lemma py_int_mono: "x \<le> y \<Longrightarrow> py_int x \<le> py_int y"
proof -
  assume xy: "x \<le> y"
  have "\<lceil>x\<rceil> \<le> \<lfloor>y\<rfloor>" if "x < 0" "0 \<le> y"
  proof -
    have "\<lceil>x\<rceil> \<le> 0" using that(1) by (simp add: ceiling_le_zero)
    moreover have "0 \<le> \<lfloor>y\<rfloor>" using that(2) by simp
    ultimately show ?thesis by linarith
  qed
  then show ?thesis using xy
    by (auto simp: py_int_def floor_mono ceiling_mono)
qed

lemma clip_mono: "x \<le> y \<Longrightarrow> clip x lo hi \<le> clip y lo hi"
  by (auto simp: clip_def min_def max_def)

lemma normalized_mono:
  assumes "rounding fl" and "a \<le> b"
  shows "normalized fl a \<le> normalized fl b"
proof -
  have "fl (a + 5) \<le> fl (b + 5)" using assms by (simp add: rounding_mono)
  then have "fl (a + 5) / 40 \<le> fl (b + 5) / 40" by (simp add: divide_right_mono)
  then have "fl (fl (a + 5) / 40) \<le> fl (fl (b + 5) / 40)" by (rule rounding_mono [OF assms(1)])
  then show ?thesis unfolding normalized_def by (rule clip_mono)
qed

lemma normalized_range: "0 \<le> normalized fl temp \<and> normalized fl temp \<le> 1"
  by (simp add: normalized_def clip_def)

lemma red_eq: "red fl temp = py_int (fl (255 * normalized fl temp))"
  by (simp add: red_def temp_to_color_def Let_def)

lemma blue_eq: "blue fl temp = py_int (fl (255 * fl (1 - normalized fl temp)))"
  by (simp add: blue_def temp_to_color_def Let_def)

lemma green_eq:
  "green fl temp = py_int (fl (255 * fl (1 - fl (\<bar>fl (normalized fl temp - 1 / 2)\<bar> * 2))))"
  by (simp add: green_def temp_to_color_def Let_def)

lemma red_mono:
  assumes "rounding fl" and "a \<le> b"
  shows "red fl a \<le> red fl b"
proof -
  have "255 * normalized fl a \<le> 255 * normalized fl b"
    using normalized_mono [OF assms] by simp
  then have "fl (255 * normalized fl a) \<le> fl (255 * normalized fl b)"
    by (rule rounding_mono [OF assms(1)])
  then show ?thesis unfolding red_eq by (rule py_int_mono)
qed

lemma blue_antimono:
  assumes "rounding fl" and "a \<le> b"
  shows "blue fl b \<le> blue fl a"
proof -
  have "1 - normalized fl b \<le> 1 - normalized fl a"
    using normalized_mono [OF assms] by simp
  then have "fl (1 - normalized fl b) \<le> fl (1 - normalized fl a)"
    by (rule rounding_mono [OF assms(1)])
  then have "255 * fl (1 - normalized fl b) \<le> 255 * fl (1 - normalized fl a)" by simp
  then have "fl (255 * fl (1 - normalized fl b)) \<le> fl (255 * fl (1 - normalized fl a))"
    by (rule rounding_mono [OF assms(1)])
  then show ?thesis unfolding blue_eq by (rule py_int_mono)
qed

text \<open>
  C7. For all temperatures \<open>t1 \<le> t2\<close> the red channel does not decrease,
  \<open>red t1 \<le> red t2\<close>, and the blue channel does not increase, \<open>blue t2 \<le> blue t1\<close>, over the
  whole input domain.
\<close>

theorem channels_monotone:
  assumes "rounding fl" and "t1 \<le> t2"
  shows "red fl t1 \<le> red fl t2 \<and> blue fl t2 \<le> blue fl t1"
  using assms by (simp add: red_mono blue_antimono)


theorem channels_monotone_witness:
  "rounding half_grid \<and> (3.7::real) \<le> 20.1 \<and> red half_grid 3.7 \<le> red half_grid 20.1 \<and>
   blue half_grid 20.1 \<le> blue half_grid 3.7"
  using channels_monotone [OF half_grid_rounding, of "3.7" "20.1"] half_grid_rounding by simp

lemma normalized_15:
  assumes "rounding fl"
  shows "normalized fl 15 = 1 / 2"
  using assms by (simp add: normalized_def clip_def rounding_20 rounding_one_half)

lemma color_at_half:
  assumes "rounding fl" and "normalized fl temp = 1 / 2"
  shows "temp_to_color fl temp = [127, 255, 127, 180]"
proof -
  have "\<lfloor>255 / 2 :: real\<rfloor> = 127" by simp
  then show ?thesis
    unfolding temp_to_color_def assms(2) Let_def
    using assms(1)
    by (simp add: py_int_def rounding_0 rounding_1 rounding_255 rounding_one_half
        rounding_255_half)
qed

lemma green_of_mono_abs:
  assumes "rounding fl" and "\<bar>fl (t - 1 / 2)\<bar> \<le> \<bar>fl (s - 1 / 2)\<bar>"
  shows "green_of fl s \<le> green_of fl t"
proof -
  have "fl (\<bar>fl (t - 1 / 2)\<bar> * 2) \<le> fl (\<bar>fl (s - 1 / 2)\<bar> * 2)"
    using assms(2) by (simp add: rounding_mono [OF assms(1)])
  then have "fl (1 - fl (\<bar>fl (s - 1 / 2)\<bar> * 2)) \<le> fl (1 - fl (\<bar>fl (t - 1 / 2)\<bar> * 2))"
    by (simp add: rounding_mono [OF assms(1)])
  then have "255 * fl (1 - fl (\<bar>fl (s - 1 / 2)\<bar> * 2)) \<le> 255 * fl (1 - fl (\<bar>fl (t - 1 / 2)\<bar> * 2))"
    by simp
  then show ?thesis unfolding green_of_def by (rule rounding_mono [OF assms(1)])
qed

lemma green_of_rising:
  assumes "rounding fl" and "s \<le> t" and "t \<le> 1 / 2"
  shows "green_of fl s \<le> green_of fl t"
proof -
  have "fl (t - 1 / 2) \<le> fl 0" using assms(3) by (simp add: rounding_mono [OF assms(1)])
  moreover have "fl (s - 1 / 2) \<le> fl (t - 1 / 2)"
    using assms(2) by (simp add: rounding_mono [OF assms(1)])
  ultimately have "\<bar>fl (t - 1 / 2)\<bar> \<le> \<bar>fl (s - 1 / 2)\<bar>"
    using rounding_0 [OF assms(1)] by simp
  then show ?thesis by (rule green_of_mono_abs [OF assms(1)])
qed

lemma green_of_falling:
  assumes "rounding fl" and "1 / 2 \<le> s" and "s \<le> t"
  shows "green_of fl t \<le> green_of fl s"
proof -
  have "fl 0 \<le> fl (s - 1 / 2)" using assms(2) by (simp add: rounding_mono [OF assms(1)])
  moreover have "fl (s - 1 / 2) \<le> fl (t - 1 / 2)"
    using assms(3) by (simp add: rounding_mono [OF assms(1)])
  ultimately have "\<bar>fl (s - 1 / 2)\<bar> \<le> \<bar>fl (t - 1 / 2)\<bar>"
    using rounding_0 [OF assms(1)] by simp
  then show ?thesis by (rule green_of_mono_abs [OF assms(1)])
qed

lemma green_of_le_255:
  assumes "rounding fl"
  shows "green_of fl t \<le> 255"
proof -
  have "fl 0 \<le> fl (\<bar>fl (t - 1 / 2)\<bar> * 2)" by (simp add: rounding_mono [OF assms])
  then have "1 - fl (\<bar>fl (t - 1 / 2)\<bar> * 2) \<le> 1" using rounding_0 [OF assms] by simp
  then have "fl (1 - fl (\<bar>fl (t - 1 / 2)\<bar> * 2)) \<le> fl 1" by (rule rounding_mono [OF assms])
  then have "255 * fl (1 - fl (\<bar>fl (t - 1 / 2)\<bar> * 2)) \<le> 255" using rounding_1 [OF assms] by simp
  then have "green_of fl t \<le> fl 255" unfolding green_of_def by (rule rounding_mono [OF assms])
  then show ?thesis using rounding_255 [OF assms] by simp
qed

lemma green_of_nonneg:
  assumes "rounding fl" and "0 \<le> t" and "t \<le> 1"
  shows "0 \<le> green_of fl t"
proof -
  have m: "fl (- (1 / 2)) = - (1 / 2)" using rounding_half [OF assms(1), of "- 1"] by simp
  have "fl (- (1 / 2)) \<le> fl (t - 1 / 2)" using assms(2) by (simp add: rounding_mono [OF assms(1)])
  moreover have "fl (t - 1 / 2) \<le> fl (1 / 2)" using assms(3) by (simp add: rounding_mono [OF assms(1)])
  ultimately have "\<bar>fl (t - 1 / 2)\<bar> * 2 \<le> 1"
    using m rounding_one_half [OF assms(1)] by simp
  then have "fl (\<bar>fl (t - 1 / 2)\<bar> * 2) \<le> fl 1" by (rule rounding_mono [OF assms(1)])
  then have "0 \<le> 1 - fl (\<bar>fl (t - 1 / 2)\<bar> * 2)" using rounding_1 [OF assms(1)] by simp
  then have "fl 0 \<le> fl (1 - fl (\<bar>fl (t - 1 / 2)\<bar> * 2))" by (rule rounding_mono [OF assms(1)])
  then have "0 \<le> 255 * fl (1 - fl (\<bar>fl (t - 1 / 2)\<bar> * 2))" using rounding_0 [OF assms(1)] by simp
  then have "fl 0 \<le> green_of fl t" unfolding green_of_def by (rule rounding_mono [OF assms(1)])
  then show ?thesis using rounding_0 [OF assms(1)] by simp
qed

lemma green_py_int: "green fl temp = py_int (green_of fl (normalized fl temp))"
  by (simp add: green_eq green_of_def)

lemma green_exact_rising:
  assumes "- 5 \<le> temp" and "temp \<le> 15"
  shows "green (\<lambda>x. x) temp = \<lfloor>255 * ((temp + 5) / 20)\<rfloor>"
proof -
  define t where "t = (temp + 5) / 40"
  have n: "normalized (\<lambda>x. x) temp = t"
    using assms by (simp add: normalized_def clip_def min_def max_def t_def)
  have "t \<le> 1 / 2" using assms by (simp add: t_def)
  then have "\<bar>t - 1 / 2\<bar> = 1 / 2 - t" by linarith
  then have "green_of (\<lambda>x. x) t = 255 * (1 - (1 / 2 - t) * 2)"
    by (simp only: green_of_def)
  also have "\<dots> = 255 * ((temp + 5) / 20)" by (simp add: t_def field_simps)
  finally have g: "green_of (\<lambda>x. x) t = 255 * ((temp + 5) / 20)" .
  have "0 \<le> 255 * ((temp + 5) / 20)" using assms by simp
  then show ?thesis unfolding green_py_int n g py_int_def by simp
qed

lemma green_exact_falling:
  assumes "15 \<le> temp" and "temp \<le> 35"
  shows "green (\<lambda>x. x) temp = \<lfloor>255 * ((35 - temp) / 20)\<rfloor>"
proof -
  define t where "t = (temp + 5) / 40"
  have n: "normalized (\<lambda>x. x) temp = t"
    using assms by (simp add: normalized_def clip_def min_def max_def t_def)
  have "1 / 2 \<le> t" using assms by (simp add: t_def)
  then have "\<bar>t - 1 / 2\<bar> = t - 1 / 2" by linarith
  then have "green_of (\<lambda>x. x) t = 255 * (1 - (t - 1 / 2) * 2)"
    by (simp only: green_of_def)
  also have "\<dots> = 255 * ((35 - temp) / 20)" by (simp add: t_def field_simps)
  finally have g: "green_of (\<lambda>x. x) t = 255 * ((35 - temp) / 20)" .
  have "0 \<le> 255 * ((35 - temp) / 20)" using assms by simp
  then show ?thesis unfolding green_py_int n g py_int_def by simp
qed

lemma green_rising:
  assumes "rounding fl" and "a \<le> b" and "b \<le> 15"
  shows "green fl a \<le> green fl b"
proof -
  have "normalized fl b \<le> normalized fl 15" by (rule normalized_mono [OF assms(1,3)])
  then have "normalized fl b \<le> 1 / 2" by (simp add: normalized_15 [OF assms(1)])
  with normalized_mono [OF assms(1,2)]
  have "green_of fl (normalized fl a) \<le> green_of fl (normalized fl b)"
    by (rule green_of_rising [OF assms(1)])
  then show ?thesis unfolding green_py_int by (rule py_int_mono)
qed

lemma green_falling:
  assumes "rounding fl" and "15 \<le> a" and "a \<le> b"
  shows "green fl b \<le> green fl a"
proof -
  have "normalized fl 15 \<le> normalized fl a" by (rule normalized_mono [OF assms(1,2)])
  then have "1 / 2 \<le> normalized fl a" by (simp add: normalized_15 [OF assms(1)])
  from green_of_falling [OF assms(1) this normalized_mono [OF assms(1,3)]]
  show ?thesis unfolding green_py_int by (rule py_int_mono)
qed

lemma green_bounds:
  assumes "rounding fl"
  shows "0 \<le> green fl temp \<and> green fl temp \<le> 255"
proof -
  have "py_int 0 \<le> green fl temp"
    unfolding green_py_int
    using normalized_range [of fl temp] by (intro py_int_mono green_of_nonneg [OF assms]) auto
  moreover have "green fl temp \<le> py_int 255"
    unfolding green_py_int by (rule py_int_mono [OF green_of_le_255 [OF assms]])
  ultimately show ?thesis by (simp add: py_int_def)
qed

text \<open>
  C8. At \<open>temp = 15\<close>, the midpoint of the nominal range, green is 255 and red and blue are
  both 127. Green peaks there: it lies between 0 and its value at 15 everywhere, rises up
  to 15 and falls after it, and is 0 at both ends of the normalised range (\<open>temp \<le> -5\<close>,
  \<open>temp \<ge> 35\<close>). In exact arithmetic the rise and the fall are linear in the temperature,
  truncated to an integer.
\<close>

theorem midpoint_colour:
  assumes "rounding fl"
  shows "temp_to_color fl 15 = [127, 255, 127, 180] \<and>
         red fl 15 = 127 \<and> green fl 15 = 255 \<and> blue fl 15 = 127 \<and>
         (\<forall>temp. 0 \<le> green fl temp \<and> green fl temp \<le> green fl 15) \<and>
         (\<forall>temp. temp \<le> - 5 \<or> 35 \<le> temp \<longrightarrow> green fl temp = 0) \<and>
         (\<forall>a b. a \<le> b \<and> b \<le> 15 \<longrightarrow> green fl a \<le> green fl b) \<and>
         (\<forall>a b. 15 \<le> a \<and> a \<le> b \<longrightarrow> green fl b \<le> green fl a) \<and>
         (\<forall>temp. - 5 \<le> temp \<and> temp \<le> 15 \<longrightarrow>
            green (\<lambda>x. x) temp = \<lfloor>255 * ((temp + 5) / 20)\<rfloor>) \<and>
         (\<forall>temp. 15 \<le> temp \<and> temp \<le> 35 \<longrightarrow>
            green (\<lambda>x. x) temp = \<lfloor>255 * ((35 - temp) / 20)\<rfloor>)"
proof -
  have c: "temp_to_color fl 15 = [127, 255, 127, 180]"
    by (rule color_at_half [OF assms normalized_15 [OF assms]])
  then have g: "green fl 15 = 255" by (simp add: green_def)
  have z: "green fl temp = 0" if "temp \<le> - 5 \<or> 35 \<le> temp" for temp
    using that color_at_0 [OF assms normalized_cold [OF assms], of temp]
      color_at_1 [OF assms normalized_hot [OF assms], of temp]
    by (auto simp: green_def)
  show ?thesis
    using c g z green_bounds [OF assms] green_rising [OF assms] green_falling [OF assms]
      green_exact_rising green_exact_falling
    by (simp add: red_def blue_def)
qed

theorem midpoint_colour_witness:
  "rounding half_grid \<and> temp_to_color half_grid 15 = [127, 255, 127, 180] \<and>
   green half_grid 15 = 255 \<and> green half_grid 22.5 \<le> green half_grid 15 \<and>
   ((40::real) \<le> - 5 \<or> (35::real) \<le> 40) \<and> green half_grid 40 = 0 \<and>
   ((2::real) \<le> 9 \<and> (9::real) \<le> 15) \<and> green half_grid 2 \<le> green half_grid 9 \<and>
   ((15::real) \<le> 18 \<and> (18::real) \<le> 30) \<and> green half_grid 30 \<le> green half_grid 18 \<and>
   ((- 5 :: real) \<le> 5 \<and> (5::real) \<le> 15) \<and> green (\<lambda>x. x) 5 = 127 \<and>
   ((15 :: real) \<le> 25 \<and> (25::real) \<le> 35) \<and> green (\<lambda>x. x) 25 = 127"
proof -
  note m = midpoint_colour [OF half_grid_rounding]
  have "\<lfloor>255 / 2 :: real\<rfloor> = 127" by simp
  moreover have "green (\<lambda>x. x) 5 = \<lfloor>255 * ((5 + 5) / 20 :: real)\<rfloor>" using m by simp
  moreover have "green (\<lambda>x. x) 25 = \<lfloor>255 * ((35 - 25) / 20 :: real)\<rfloor>" using m by simp
  moreover have "green half_grid 2 \<le> green half_grid 9" using m by simp
  moreover have "green half_grid 30 \<le> green half_grid 18" using m by simp
  moreover have "green half_grid 40 = 0" using m by simp
  moreover have "green half_grid 22.5 \<le> green half_grid 15" using m by blast
  ultimately show ?thesis using m half_grid_rounding by simp
qed

section \<open>Properties of the retrieval\<close>

lemma append_samples_fst:
  "fst (append_samples td city c ps info) = fst (append_samples td city c ps [])"
proof (induction ps arbitrary: info)
  case Nil
  then show ?case by simp
next
  case (Cons p ps)
  obtain t temp where p: "p = (t, temp)" by (cases p)
  show ?case
  proof (cases "td t")
    case (Inl e)
    then show ?thesis by (simp add: p)
  next
    case (Inr ts)
    then show ?thesis
      using Cons.IH [of "info @ [\<lparr>lat = lat c, lon = lon c, City = city, time = ts, Temperature = temp\<rparr>]"]
        Cons.IH [of "[\<lparr>lat = lat c, lon = lon c, City = city, time = ts, Temperature = temp\<rparr>]"]
      by (simp add: p)
  qed
qed

lemma append_samples_snd:
  "snd (append_samples td city c ps info) = info @ snd (append_samples td city c ps [])"
proof (induction ps arbitrary: info)
  case Nil
  then show ?case by simp
next
  case (Cons p ps)
  obtain t temp where p: "p = (t, temp)" by (cases p)
  show ?case
  proof (cases "td t")
    case (Inl e)
    then show ?thesis by (simp add: p)
  next
    case (Inr ts)
    then show ?thesis
      using Cons.IH [of "info @ [\<lparr>lat = lat c, lon = lon c, City = city, time = ts, Temperature = temp\<rparr>]"]
        Cons.IH [of "[\<lparr>lat = lat c, lon = lon c, City = city, time = ts, Temperature = temp\<rparr>]"]
      by (simp add: p)
  qed
qed

lemma append_samples_acc:
  "append_samples td city c ps info =
     (fst (append_samples td city c ps []), info @ snd (append_samples td city c ps []))"
  using append_samples_fst [of td city c ps info] append_samples_snd [of td city c ps info]
  by (simp add: prod_eq_iff)

lemma fetch_city_acc:
  "fetch_city rg td loc (info, errs) = (info @ city_rows rg td loc, errs @ city_errors rg td loc)"
proof -
  obtain city c where loc: "loc = (city, c)" by (cases loc)
  show ?thesis
  proof (cases "request rg c")
    case (Inl e)
    then show ?thesis by (simp add: fetch_city_def city_rows_def city_errors_def loc)
  next
    case (Inr p)
    obtain tms temps where p: "p = (tms, temps)" by (cases p)
    obtain r rws where a: "append_samples td city c (zip tms temps) [] = (r, rws)"
      by (cases "append_samples td city c (zip tms temps) []")
    have b: "append_samples td city c (zip tms temps) info = (r, info @ rws)"
      using append_samples_acc [of td city c "zip tms temps" info] a by simp
    show ?thesis
      using Inr p a b
      by (cases r) (simp_all add: fetch_city_def city_rows_def city_errors_def loc)
  qed
qed

lemma fetch_loop_acc:
  "fetch_loop rg td locs (info, errs) =
     (info @ concat (map (city_rows rg td) locs), errs @ concat (map (city_errors rg td) locs))"
  by (induction locs arbitrary: info errs) (simp_all add: fetch_city_acc)

lemma fetch_weather_data_rows:
  "rows (fst (fetch_weather_data rg td)) = concat (map (city_rows rg td) kyushu_capitals)"
  by (simp add: fetch_weather_data_def fetch_loop_acc DataFrame_def)

lemma fetch_weather_data_errors:
  "snd (fetch_weather_data rg td) = concat (map (city_errors rg td) kyushu_capitals)"
  by (simp add: fetch_weather_data_def fetch_loop_acc)

lemma append_samples_origin:
  "r \<in> set (snd (append_samples td city c ps info)) \<Longrightarrow>
   r \<in> set info \<or> (City r = city \<and> lat r = lat c \<and> lon r = lon c)"
proof (induction ps arbitrary: info)
  case Nil
  then show ?case by simp
next
  case (Cons p ps)
  obtain t temp where p: "p = (t, temp)" by (cases p)
  show ?case
  proof (cases "td t")
    case (Inl e)
    then show ?thesis using Cons.prems by (simp add: p)
  next
    case (Inr ts)
    then show ?thesis using Cons.prems Cons.IH by (fastforce simp: p)
  qed
qed

lemma city_rows_origin:
  assumes "r \<in> set (city_rows rg td (city, c))"
  shows "City r = city \<and> lat r = lat c \<and> lon r = lon c"
proof (cases "request rg c")
  case (Inl e)
  then show ?thesis using assms by (simp add: city_rows_def fetch_city_def)
next
  case (Inr p)
  obtain tms temps where p: "p = (tms, temps)" by (cases p)
  have "r \<in> set (snd (append_samples td city c (zip tms temps) []))"
    using assms Inr p
    by (auto simp: city_rows_def fetch_city_def split: prod.splits option.splits)
  from append_samples_origin [OF this] show ?thesis by simp
qed

lemma city_errors_cases:
  "city_errors rg td (city, c) = [] \<or> (\<exists>e. city_errors rg td (city, c) = [(city, e)])"
  by (auto simp: city_errors_def fetch_city_def split: sum.splits prod.splits option.splits)

lemma city_failed_request:
  assumes "request rg c = Inl e"
  shows "city_rows rg td (city, c) = [] \<and> city_errors rg td (city, c) = [(city, e)]"
  using assms by (simp add: city_rows_def city_errors_def fetch_city_def)

lemma append_samples_all_parsed:
  assumes "\<forall>p \<in> set ps. \<exists>ts. td (fst p) = Inr ts"
  shows "append_samples td city c ps info =
           (None, info @ map (\<lambda>(t, temp). \<lparr>lat = lat c, lon = lon c, City = city,
                                            time = projr (td t), Temperature = temp\<rparr>) ps)"
  using assms
proof (induction ps arbitrary: info)
  case Nil
  then show ?case by simp
next
  case (Cons p ps)
  obtain t temp where p: "p = (t, temp)" by (cases p)
  from Cons.prems obtain ts where ts: "td t = Inr ts" by (auto simp: p)
  from Cons.prems have "\<forall>p \<in> set ps. \<exists>ts. td (fst p) = Inr ts" by simp
  from Cons.IH [OF this] show ?case by (simp add: p ts)
qed

lemma city_all_parsed:
  assumes "request rg c = Inr (tms, temps)"
    and "\<forall>p \<in> set (zip tms temps). \<exists>ts. td (fst p) = Inr ts"
  shows "city_rows rg td (city, c) =
           map (\<lambda>(t, temp). \<lparr>lat = lat c, lon = lon c, City = city,
                              time = projr (td t), Temperature = temp\<rparr>) (zip tms temps) \<and>
         city_errors rg td (city, c) = []"
  using assms(1) append_samples_all_parsed [OF assms(2), of city c "[]"]
  by (simp add: city_rows_def city_errors_def fetch_city_def)

lemma kyushu_distinct: "distinct (map fst kyushu_capitals)"
  by (simp add: kyushu_capitals_def)

lemma filter_city_concat:
  assumes "distinct (map fst locs)" and "(city, c) \<in> set locs"
  shows "filter (\<lambda>r. City r = city) (concat (map (city_rows rg td) locs)) = city_rows rg td (city, c)"
  using assms
proof (induction locs)
  case Nil
  then show ?case by simp
next
  case (Cons loc locs)
  obtain city' c' where loc: "loc = (city', c')" by (cases loc)
  have own: "filter (\<lambda>r. City r = n) (city_rows rg td (n, k)) = city_rows rg td (n, k)" for n k
    using city_rows_origin [of _ rg td n k] by (simp add: filter_id_conv)
  have other: "filter (\<lambda>r. City r = n) (city_rows rg td (m, k)) = []" if "m \<noteq> n" for n m k
    using city_rows_origin [of _ rg td m k] that by (auto simp: filter_empty_conv)
  have none: "filter (\<lambda>r. City r = n) (concat (map (city_rows rg td) ls)) = []"
    if "n \<notin> fst ` set ls" for n ls
    using that
  proof (induction ls)
    case Nil
    then show ?case by simp
  next
    case (Cons l ls)
    obtain m k where l: "l = (m, k)" by (cases l)
    from Cons show ?case using other [of m n k] by (auto simp: l)
  qed
  show ?case
  proof (cases "(city, c) = loc")
    case True
    then have "city \<notin> fst ` set locs" using Cons.prems(1) by (auto simp: loc)
    then show ?thesis using True own [of city c] none [of city locs] by (simp add: loc)
  next
    case False
    then have in_rest: "(city, c) \<in> set locs" using Cons.prems(2) by simp
    then have "city' \<noteq> city" using Cons.prems(1) by (force simp: loc)
    then show ?thesis
      using Cons.IH in_rest Cons.prems(1) other [of city' city c'] by (simp add: loc)
  qed
qed

lemma request_failure_causes:
  "request rg c = Inl e \<longleftrightarrow>
     (let p = \<lparr>latitude = lat c, longitude = lon c, hourly = ''temperature_2m'',
               timezone = ''Asia/Tokyo'', past_days = 1\<rparr>
      in rg p = Inl e \<or>
         (\<exists>resp. rg p = Inr resp \<and>
            (raise_for_status resp = Inl e \<or>
             raise_for_status resp = Inr () \<and>
             (json resp = Inl e \<or>
              (\<exists>data. json resp = Inr data \<and>
                 (hourly_key data = None \<and> e = KeyError ''hourly'' \<or>
                  (\<exists>h. hourly_key data = Some h \<and>
                     (time_key h = None \<and> e = KeyError ''time'' \<or>
                      time_key h \<noteq> None \<and> temperature_2m_key h = None \<and>
                      e = KeyError ''temperature_2m''))))))))"
  by (auto simp: request_def Let_def split: sum.splits option.splits)

lemmas demo_simps =
  fetch_weather_data_def kyushu_capitals_def fetch_city_def request_def raise_for_status_def
  DataFrame_def demo_get_def demo_response_def demo_to_datetime_def demo_down_def

text \<open>
  C10. Every sample of the table returned by \<open>fetch_weather_data\<close> carries the name of
  one of the seven configured cities, and its \<open>lat\<close> and \<open>lon\<close> are the configured
  coordinates of that city, whatever the service answers.
\<close>

theorem coordinate_pass_through:
  "\<forall>r \<in> set (rows (fst (fetch_weather_data rg td))).
     City r \<in> fst ` set kyushu_capitals \<and>
     map_of kyushu_capitals (City r) = Some \<lparr>lat = lat r, lon = lon r\<rparr>"
proof
  fix r
  assume "r \<in> set (rows (fst (fetch_weather_data rg td)))"
  then obtain loc where loc: "loc \<in> set kyushu_capitals" and r: "r \<in> set (city_rows rg td loc)"
    by (auto simp: fetch_weather_data_rows)
  obtain city c where lc: "loc = (city, c)" by (cases loc)
  from city_rows_origin [OF r [unfolded lc]]
  have o: "City r = city" "lat r = lat c" "lon r = lon c" by simp_all
  have "map_of kyushu_capitals city = Some c"
    using loc lc kyushu_distinct by simp
  then have "map_of kyushu_capitals (City r) = Some \<lparr>lat = lat r, lon = lon r\<rparr>"
    by (simp add: o)
  moreover have "City r \<in> fst ` set kyushu_capitals"
    using loc lc o(1) by force
  ultimately show "City r \<in> fst ` set kyushu_capitals \<and>
     map_of kyushu_capitals (City r) = Some \<lparr>lat = lat r, lon = lon r\<rparr>" by simp
qed

theorem coordinate_pass_through_witness:
  "\<lparr>lat = 32.7450, lon = 129.8739, City = ''Nagasaki'', time = 1 :: nat, Temperature = - 2 :: real\<rparr>
     \<in> set (rows (fst (fetch_weather_data (demo_get (Inl ConnectionError)) demo_to_datetime))) \<and>
   map_of kyushu_capitals ''Nagasaki'' = Some \<lparr>lat = 32.7450, lon = 129.8739\<rparr>"
proof -
  let ?r = "\<lparr>lat = 32.7450, lon = 129.8739, City = ''Nagasaki'', time = 1 :: nat,
             Temperature = - 2 :: real\<rparr>"
  have m: "?r \<in> set (rows (fst (fetch_weather_data (demo_get (Inl ConnectionError)) demo_to_datetime)))"
    by (simp add: demo_simps)
  from bspec [OF coordinate_pass_through m] m show ?thesis by simp
qed













lemma no_error_for_city:
  assumes "(city, c) \<in> set kyushu_capitals" and "city_errors rg td (city, c) = []"
  shows "city \<notin> fst ` set (snd (fetch_weather_data rg td))"
proof
  assume "city \<in> fst ` set (snd (fetch_weather_data rg td))"
  then obtain e loc where loc: "loc \<in> set kyushu_capitals"
    and e: "(city, e) \<in> set (city_errors rg td loc)"
    by (auto simp: fetch_weather_data_errors)
  obtain city' c' where lc: "loc = (city', c')" by (cases loc)
  from city_errors_cases [of rg td city' c'] e have "city' = city" by (auto simp: lc)
  with loc lc assms(1) kyushu_distinct have "c' = c" by (metis eq_key_imp_eq_value)
  with e assms(2) lc \<open>city' = city\<close> show False by simp
qed

text \<open>
  C9, as the code has it. When the request of a city returns the arrays \<open>time\<close> and
  \<open>temperature_2m\<close>, of equal or different lengths, and every timestamp that \<open>zip\<close> pairs
  with a temperature parses, the city's rows are the pairs of \<open>zip\<close> in order, so there
  are exactly \<open>min (length time) (length temperature_2m)\<close> of them: the tail of the longer
  array is dropped, and no message is shown for the city.
\<close>

theorem zip_truncates:
  assumes "(city, c) \<in> set kyushu_capitals"
    and "request rg c = Inr (tms, temps)"
    and "\<forall>p \<in> set (zip tms temps). \<exists>ts. td (fst p) = Inr ts"
  shows "filter (\<lambda>r. City r = city) (rows (fst (fetch_weather_data rg td))) =
           map (\<lambda>(t, temp). \<lparr>lat = lat c, lon = lon c, City = city,
                              time = projr (td t), Temperature = temp\<rparr>) (zip tms temps) \<and>
         length (filter (\<lambda>r. City r = city) (rows (fst (fetch_weather_data rg td)))) =
           min (length tms) (length temps) \<and>
         city \<notin> fst ` set (snd (fetch_weather_data rg td))"
proof -
  note p = city_all_parsed [OF assms(2,3), of city]
  have "filter (\<lambda>r. City r = city) (rows (fst (fetch_weather_data rg td))) =
          city_rows rg td (city, c)"
    using filter_city_concat [OF kyushu_distinct assms(1)] by (simp add: fetch_weather_data_rows)
  with p no_error_for_city [OF assms(1), of rg td] show ?thesis by simp
qed

theorem zip_truncates_witness:
  "request (demo_get (Inr (demo_response [''2024-01-01T00:00'', ''2024-01-01T01:00''] [9])))
     \<lparr>lat = 33.2494, lon = 130.2974\<rparr> = Inr ([''2024-01-01T00:00'', ''2024-01-01T01:00''], [9]) \<and>
   filter (\<lambda>r. City r = ''Saga'')
     (rows (fst (fetch_weather_data
        (demo_get (Inr (demo_response [''2024-01-01T00:00'', ''2024-01-01T01:00''] [9])))
        demo_to_datetime))) =
     [\<lparr>lat = 33.2494, lon = 130.2974, City = ''Saga'', time = 0, Temperature = 9\<rparr>] \<and>
   length (filter (\<lambda>r. City r = ''Saga'')
     (rows (fst (fetch_weather_data
        (demo_get (Inr (demo_response [''2024-01-01T00:00'', ''2024-01-01T01:00''] [9])))
        demo_to_datetime)))) = min 2 1 \<and>
   ''Saga'' \<notin> fst ` set (snd (fetch_weather_data
        (demo_get (Inr (demo_response [''2024-01-01T00:00'', ''2024-01-01T01:00''] [9])))
        demo_to_datetime))"
proof -
  let ?g = "demo_get (Inr (demo_response [''2024-01-01T00:00'', ''2024-01-01T01:00''] [9]))"
  have a: "(''Saga'', \<lparr>lat = 33.2494, lon = 130.2974\<rparr>) \<in> set kyushu_capitals"
    by (simp add: kyushu_capitals_def)
  have b: "request ?g \<lparr>lat = 33.2494, lon = 130.2974\<rparr> =
             Inr ([''2024-01-01T00:00'', ''2024-01-01T01:00''], [9])"
    by (simp add: request_def demo_get_def demo_response_def raise_for_status_def)
  have c: "\<forall>p \<in> set (zip [''2024-01-01T00:00'', ''2024-01-01T01:00''] [9::real]).
             \<exists>ts. demo_to_datetime (fst p) = Inr ts"
    by (simp add: demo_to_datetime_def)
  have d: "projr (demo_to_datetime ''2024-01-01T00:00'') = 0"
    by (simp add: demo_to_datetime_def)
  from zip_truncates [OF a b c] b d show ?thesis by simp
qed

text \<open>
  Without the condition on the timestamps the count can be smaller: here Saga answers
  with two timestamps and one temperature, the first timestamp does not parse, and Saga
  gets a message and no row where the minimum of the lengths is 1.
\<close>

theorem zip_mismatch_counterexample:
  "request (demo_get (Inr (demo_response [''garbage'', ''2024-01-01T01:00''] [9])))
     \<lparr>lat = 33.2494, lon = 130.2974\<rparr> = Inr ([''garbage'', ''2024-01-01T01:00''], [9]) \<and>
   min (length [''garbage'', ''2024-01-01T01:00'']) (length [9 :: real]) = 1 \<and>
   map City (rows (fst (fetch_weather_data
          (demo_get (Inr (demo_response [''garbage'', ''2024-01-01T01:00''] [9])))
          demo_to_datetime))) =
     [''Fukuoka'', ''Fukuoka'', ''Nagasaki'', ''Nagasaki'', ''Kumamoto'', ''Kumamoto'',
      ''Oita'', ''Oita'', ''Miyazaki'', ''Miyazaki'', ''Kagoshima'', ''Kagoshima''] \<and>
   snd (fetch_weather_data
          (demo_get (Inr (demo_response [''garbage'', ''2024-01-01T01:00''] [9])))
          demo_to_datetime) = [(''Saga'', ValueError)]"
  by (simp add: demo_simps)

section \<open>Properties of the presentation\<close>





















text \<open>
  Line 73 on the table of floats: the \<^verbatim>\<open>null\<close> temperature is NaN in the column, and
  \<^verbatim>\<open>int(255 * t)\<close> raises \<^verbatim>\<open>ValueError\<close>.
\<close>

lemma null_temperature_stops_colouring:
  "with_color half_grid (projr (with_elevation half_grid demo_floats)) = Inl ValueError"
  by (simp add: with_color_def with_elevation_def getitem_Temperature_def column_of_def
      demo_floats_def DataFrame_def)

lemma all_requests_fail:
  assumes "\<forall>loc \<in> set kyushu_capitals. isl (request rg (snd loc))"
  shows "rows (fst (fetch_weather_data rg td)) = []"
proof -
  have "city_rows rg td loc = []" if "loc \<in> set kyushu_capitals" for loc
  proof -
    from assms that obtain e where "request rg (snd loc) = Inl e" by (auto simp: isl_def)
    from city_failed_request [OF this, of td "fst loc"] show ?thesis by simp
  qed
  then show ?thesis by (simp add: fetch_weather_data_rows)
qed

lemma empty_frame_stops:
  assumes "rows (fst (fetch_weather_data rg td)) = []"
  shows "snd (pipeline fl rg td slider) = Inl (KeyError ''Temperature'')"
proof -
  obtain df errs where f: "fetch_weather_data rg td = (df, errs)"
    by (cases "fetch_weather_data rg td")
  have "columns df = []"
    using f assms by (auto simp: fetch_weather_data_def DataFrame_def split: prod.splits if_splits)
  then show ?thesis by (simp add: pipeline_def f with_elevation_def getitem_Temperature_def)
qed

text \<open>
  C2, at the input where every request fails. Seven messages are shown, the table is
  built from the empty list and has no column, and line 72 raises
  \<^verbatim>\<open>KeyError: 'Temperature'\<close>: the script ends before the colours, the slider and the
  filter, whatever the rounding, the parser and the slider are.
\<close>

theorem total_failure_stops_script:
  "pipeline fl demo_down td slider =
     ([(''Fukuoka'', ConnectionError), (''Saga'', ConnectionError), (''Nagasaki'', ConnectionError),
       (''Kumamoto'', ConnectionError), (''Oita'', ConnectionError), (''Miyazaki'', ConnectionError),
       (''Kagoshima'', ConnectionError)],
      Inl (KeyError ''Temperature''))"
  by (simp add: pipeline_def with_elevation_def getitem_Temperature_def demo_simps)

text \<open>
  Line 89 on a table that has the \<open>time\<close> column: the result is the table restricted to
  the rows whose timestamp equals the selected time, in their order and with their
  multiplicity, and it is the empty table when no row has that timestamp.
\<close>

lemma df_selected_exact_match:
  assumes "''time'' \<in> set (columns df)"
  shows "\<exists>out. df_selected df selected_time = Inr out \<and>
           columns out = columns df \<and>
           rows out = filter (\<lambda>r. time r = selected_time) (rows df) \<and>
           set (rows out) = {r \<in> set (rows df). time r = selected_time} \<and>
           mset (rows out) = filter_mset (\<lambda>r. time r = selected_time) (mset (rows df)) \<and>
           (selected_time \<notin> time ` set (rows df) \<longrightarrow> rows out = [])"
  using assms by (auto simp: df_selected_def filter_empty_conv)


section \<open>Retrieval followed by selection\<close>

lemma one_match:
  assumes "distinct (map f xs)" and "t \<in> f ` set xs"
  shows "length (filter (\<lambda>x. f x = t) xs) = 1"
  using assms
proof (induction xs)
  case Nil
  then show ?case by simp
next
  case (Cons x xs)
  show ?case
  proof (cases "f x = t")
    case True
    then have "t \<notin> f ` set xs" using Cons.prems(1) by auto
    then have "filter (\<lambda>x. f x = t) xs = []" by (auto simp: filter_empty_conv)
    then show ?thesis using True by simp
  next
    case False
    then show ?thesis using Cons by auto
  qed
qed

lemma partition_by_key:
  assumes "distinct grid" and "\<forall>x \<in> set xs. f x \<in> set grid"
  shows "mset (concat (map (\<lambda>t. filter (\<lambda>x. f x = t) xs) grid)) = mset xs"
  using assms(2)
proof (induction xs)
  case Nil
  then show ?case by (induction grid) simp_all
next
  case (Cons x xs)
  have split: "mset (concat (map (\<lambda>t. filter (\<lambda>y. f y = t) (x # xs)) g)) =
               mset (concat (map (\<lambda>t. if f x = t then [x] else []) g)) +
               mset (concat (map (\<lambda>t. filter (\<lambda>y. f y = t) xs) g))" for g
    by (induction g) simp_all
  have single: "mset (concat (map (\<lambda>t. if a = t then [x] else []) g)) = {#x#}"
    if "distinct g" "a \<in> set g" for a g
    using that
  proof (induction g)
    case Nil
    then show ?case by simp
  next
    case (Cons b g)
    have none: "concat (map (\<lambda>t. if a = t then [x] else []) g) = []" if "a \<notin> set g"
      using that by (induction g) auto
    show ?case
    proof (cases "a = b")
      case True
      then have "a \<notin> set g" using Cons.prems(1) by simp
      from none [OF this] True show ?thesis by simp
    next
      case False
      then show ?thesis using Cons by simp
    qed
  qed
  from Cons have "mset (concat (map (\<lambda>t. filter (\<lambda>y. f y = t) xs) grid)) = mset xs" by simp
  moreover have "mset (concat (map (\<lambda>t. if f x = t then [x] else []) grid)) = {#x#}"
    using single [OF assms(1), of "f x"] Cons.prems by simp
  ultimately show ?case unfolding split by simp
qed

lemma city_on_grid:
  assumes "request rg c = Inr (tms, temps)"
    and "map (td \<circ> fst) (zip tms temps) = map Inr grid"
  shows "map time (city_rows rg td (city, c)) = grid \<and> city_errors rg td (city, c) = []"
proof -
  have p: "\<forall>p \<in> set (zip tms temps). \<exists>ts. td (fst p) = Inr ts"
  proof
    fix p
    assume "p \<in> set (zip tms temps)"
    then have "td (fst p) \<in> set (map (td \<circ> fst) (zip tms temps))" by force
    then show "\<exists>ts. td (fst p) = Inr ts" unfolding assms(2) by auto
  qed
  have "map projr (map (td \<circ> fst) (zip tms temps)) = grid"
    unfolding assms(2) by (simp add: comp_def)
  then have "map (\<lambda>p. projr (td (fst p))) (zip tms temps) = grid"
    by (simp add: comp_def)
  moreover have "map time (city_rows rg td (city, c)) = map (\<lambda>p. projr (td (fst p))) (zip tms temps)"
    using city_all_parsed [OF assms(1) p, of city] by (simp add: comp_def case_prod_unfold)
  ultimately show ?thesis using city_all_parsed [OF assms(1) p, of city] by simp
qed

lemma selected_cities:
  assumes "distinct grid" and "t \<in> set grid"
    and "\<forall>loc \<in> set locs. case request rg (snd loc) of Inl e \<Rightarrow> True
           | Inr (tms, temps) \<Rightarrow> map (td \<circ> fst) (zip tms temps) = map Inr grid"
  shows "map City (filter (\<lambda>r. time r = t) (concat (map (city_rows rg td) locs))) =
           map fst (filter (\<lambda>loc. \<not> isl (request rg (snd loc))) locs)"
  using assms(3)
proof (induction locs)
  case Nil
  then show ?case by simp
next
  case (Cons loc locs)
  obtain city c where lc: "loc = (city, c)" by (cases loc)
  have "map City (filter (\<lambda>r. time r = t) (city_rows rg td loc)) =
          (if isl (request rg (snd loc)) then [] else [fst loc])"
  proof (cases "request rg c")
    case (Inl e)
    from city_failed_request [OF this, of td city] Inl show ?thesis by (simp add: lc)
  next
    case (Inr p)
    obtain tms temps where p: "p = (tms, temps)" by (cases p)
    from Cons.prems Inr p have g: "map (td \<circ> fst) (zip tms temps) = map Inr grid"
      by (simp add: lc)
    from city_on_grid [OF Inr [unfolded p] g, of city]
    have tm: "map time (city_rows rg td (city, c)) = grid" by simp
    have "length (filter (\<lambda>r. time r = t) (city_rows rg td (city, c))) = 1"
      using one_match [of time "city_rows rg td (city, c)" t] assms(1,2) tm
      by (metis list.set_map)
    then obtain r where r: "filter (\<lambda>r. time r = t) (city_rows rg td (city, c)) = [r]"
      by (cases "filter (\<lambda>r. time r = t) (city_rows rg td (city, c))") auto
    then have "r \<in> set (filter (\<lambda>r. time r = t) (city_rows rg td (city, c)))" by simp
    then have "r \<in> set (city_rows rg td (city, c))" by simp
    from city_rows_origin [OF this] r Inr show ?thesis by (simp add: lc)
  qed
  with Cons show ?case by simp
qed

lemma rows_on_grid:
  assumes "\<forall>loc \<in> set locs. case request rg (snd loc) of Inl e \<Rightarrow> True
           | Inr (tms, temps) \<Rightarrow> map (td \<circ> fst) (zip tms temps) = map Inr grid"
    and "r \<in> set (concat (map (city_rows rg td) locs))"
  shows "time r \<in> set grid"
proof -
  from assms(2) obtain loc where loc: "loc \<in> set locs" and r: "r \<in> set (city_rows rg td loc)"
    by auto
  obtain city c where lc: "loc = (city, c)" by (cases loc)
  show ?thesis
  proof (cases "request rg c")
    case (Inl e)
    from city_failed_request [OF this, of td city] r show ?thesis by (simp add: lc)
  next
    case (Inr p)
    obtain tms temps where p: "p = (tms, temps)" by (cases p)
    from assms(1) loc Inr p have g: "map (td \<circ> fst) (zip tms temps) = map Inr grid"
      by (auto simp: lc)
    from city_on_grid [OF Inr [unfolded p] g, of city]
    have "map time (city_rows rg td (city, c)) = grid" by simp
    then show ?thesis using r lc by (metis image_eqI list.set_map)
  qed
qed

lemma rows_count:
  assumes "\<forall>loc \<in> set locs. case request rg (snd loc) of Inl e \<Rightarrow> True
           | Inr (tms, temps) \<Rightarrow> map (td \<circ> fst) (zip tms temps) = map Inr grid"
  shows "length (concat (map (city_rows rg td) locs)) =
           length (filter (\<lambda>loc. \<not> isl (request rg (snd loc))) locs) * length grid"
  using assms
proof (induction locs)
  case Nil
  then show ?case by simp
next
  case (Cons loc locs)
  obtain city c where lc: "loc = (city, c)" by (cases loc)
  have "length (city_rows rg td loc) = (if isl (request rg (snd loc)) then 0 else length grid)"
  proof (cases "request rg c")
    case (Inl e)
    from city_failed_request [OF this, of td city] Inl show ?thesis by (simp add: lc)
  next
    case (Inr p)
    obtain tms temps where p: "p = (tms, temps)" by (cases p)
    from Cons.prems Inr p have g: "map (td \<circ> fst) (zip tms temps) = map Inr grid"
      by (simp add: lc)
    from city_on_grid [OF Inr [unfolded p] g, of city]
    have "map time (city_rows rg td (city, c)) = grid" by simp
    then have "length (city_rows rg td (city, c)) = length grid" by (metis length_map)
    then show ?thesis using Inr by (simp add: lc)
  qed
  with Cons show ?case by simp
qed

text \<open>
  C6. Let every city whose request succeeds return samples whose timestamps parse to the
  same \<open>M\<close> distinct values \<open>grid\<close>, and let \<open>N \<ge> 1\<close> cities succeed. Selecting any
  timestamp of the grid returns exactly \<open>N\<close> rows, one per city that succeeded, in the
  configured order; the \<open>M\<close> selections together contain every row of the table exactly
  once; and the table has \<open>N * M\<close> rows.
\<close>

theorem round_trip:
  assumes "distinct grid"
    and "\<forall>loc \<in> set kyushu_capitals. case request rg (snd loc) of Inl e \<Rightarrow> True
           | Inr (tms, temps) \<Rightarrow> map (td \<circ> fst) (zip tms temps) = map Inr grid"
    and "\<exists>loc \<in> set kyushu_capitals. \<not> isl (request rg (snd loc))"
  shows "(\<forall>t \<in> set grid. \<exists>out. df_selected (fst (fetch_weather_data rg td)) t = Inr out \<and>
            map City (rows out) =
              map fst (filter (\<lambda>loc. \<not> isl (request rg (snd loc))) kyushu_capitals) \<and>
            distinct (map City (rows out)) \<and>
            length (rows out) =
              length (filter (\<lambda>loc. \<not> isl (request rg (snd loc))) kyushu_capitals)) \<and>
         mset (concat (map (\<lambda>t. rows (projr (df_selected (fst (fetch_weather_data rg td)) t))) grid)) =
           mset (rows (fst (fetch_weather_data rg td))) \<and>
         length (rows (fst (fetch_weather_data rg td))) =
           length (filter (\<lambda>loc. \<not> isl (request rg (snd loc))) kyushu_capitals) * length grid"
proof -
  let ?df = "fst (fetch_weather_data rg td)"
  let ?ok = "filter (\<lambda>loc. \<not> isl (request rg (snd loc))) kyushu_capitals"
  have n: "length (rows ?df) = length ?ok * length grid"
    using rows_count [OF assms(2)] by (simp add: fetch_weather_data_rows)
  have sel: "df_selected ?df t = Inr (?df\<lparr>rows := filter (\<lambda>r. time r = t) (rows ?df)\<rparr>)"
    if "t \<in> set grid" for t
  proof -
    from assms(3) have "?ok \<noteq> []" by (auto simp: filter_empty_conv)
    moreover from that have "grid \<noteq> []" by auto
    ultimately have "rows ?df \<noteq> []" using n by auto
    then have "''time'' \<in> set (columns ?df)"
      by (auto simp: fetch_weather_data_def DataFrame_def split: prod.splits)
    then show ?thesis by (simp add: df_selected_def)
  qed
  have c: "map City (filter (\<lambda>r. time r = t) (rows ?df)) = map fst ?ok" if "t \<in> set grid" for t
    using selected_cities [OF assms(1) that assms(2)] by (simp add: fetch_weather_data_rows)
  have d: "distinct (map fst ?ok)"
    using kyushu_distinct by (rule distinct_map_filter)
  have first: "\<forall>t \<in> set grid. \<exists>out. df_selected ?df t = Inr out \<and>
            map City (rows out) = map fst ?ok \<and> distinct (map City (rows out)) \<and>
            length (rows out) = length ?ok"
  proof
    fix t
    assume t: "t \<in> set grid"
    have "length (filter (\<lambda>r. time r = t) (rows ?df)) = length ?ok"
      using c [OF t] by (metis length_map)
    then show "\<exists>out. df_selected ?df t = Inr out \<and>
            map City (rows out) = map fst ?ok \<and> distinct (map City (rows out)) \<and>
            length (rows out) = length ?ok"
      using sel [OF t] c [OF t] d by simp
  qed
  have eq: "map (\<lambda>t. rows (projr (df_selected ?df t))) grid =
        map (\<lambda>t. filter (\<lambda>r. time r = t) (rows ?df)) grid"
    by (rule map_cong [OF refl]) (simp add: sel)
  have "mset (concat (map (\<lambda>t. filter (\<lambda>r. time r = t) (rows ?df)) grid)) = mset (rows ?df)"
  proof (rule partition_by_key [OF assms(1)])
    show "\<forall>x \<in> set (rows ?df). time x \<in> set grid"
      using rows_on_grid [OF assms(2)] by (simp add: fetch_weather_data_rows)
  qed
  then have second: "mset (concat (map (\<lambda>t. rows (projr (df_selected ?df t))) grid)) =
           mset (rows ?df)" unfolding eq .
  from first second n show ?thesis by simp
qed

theorem round_trip_witness:
  "distinct [0, 1 :: nat] \<and>
   map City (rows (projr (df_selected
      (fst (fetch_weather_data (demo_get (Inl ConnectionError)) demo_to_datetime)) 1))) =
     [''Fukuoka'', ''Nagasaki'', ''Kumamoto'', ''Oita'', ''Miyazaki'', ''Kagoshima''] \<and>
   mset (concat (map (\<lambda>t. rows (projr (df_selected
      (fst (fetch_weather_data (demo_get (Inl ConnectionError)) demo_to_datetime)) t))) [0, 1])) =
     mset (rows (fst (fetch_weather_data (demo_get (Inl ConnectionError)) demo_to_datetime))) \<and>
   length (rows (fst (fetch_weather_data (demo_get (Inl ConnectionError)) demo_to_datetime))) = 6 * 2"
proof -
  let ?g = "demo_get (Inl ConnectionError)"
  have a: "distinct [0, 1 :: nat]" by simp
  have b: "\<forall>loc \<in> set kyushu_capitals. case request ?g (snd loc) of Inl e \<Rightarrow> True
           | Inr (tms, temps) \<Rightarrow> map (demo_to_datetime \<circ> fst) (zip tms temps) = map Inr [0, 1]"
    by (simp add: kyushu_capitals_def request_def raise_for_status_def demo_get_def
        demo_response_def demo_to_datetime_def)
  have c: "\<exists>loc \<in> set kyushu_capitals. \<not> isl (request ?g (snd loc))"
    by (simp add: kyushu_capitals_def request_def raise_for_status_def demo_get_def
        demo_response_def)
  have ok: "map fst (filter (\<lambda>loc. \<not> isl (request ?g (snd loc))) kyushu_capitals) =
      [''Fukuoka'', ''Nagasaki'', ''Kumamoto'', ''Oita'', ''Miyazaki'', ''Kagoshima'']"
    by (simp add: kyushu_capitals_def request_def raise_for_status_def demo_get_def
        demo_response_def)
  note r = round_trip [OF a b c]
  have m: "(1::nat) \<in> set [0, 1]" by simp
  from bspec [OF conjunct1 [OF r] m] obtain out where
    o: "df_selected (fst (fetch_weather_data ?g demo_to_datetime)) 1 = Inr out"
       "map City (rows out) =
          map fst (filter (\<lambda>loc. \<not> isl (request ?g (snd loc))) kyushu_capitals)"
    by blast
  have one: "map City (rows (projr (df_selected (fst (fetch_weather_data ?g demo_to_datetime)) 1))) =
     [''Fukuoka'', ''Nagasaki'', ''Kumamoto'', ''Oita'', ''Miyazaki'', ''Kagoshima'']"
    using o ok by simp
  have two: "mset (concat (map (\<lambda>t. rows (projr (df_selected
      (fst (fetch_weather_data ?g demo_to_datetime)) t))) [0, 1])) =
     mset (rows (fst (fetch_weather_data ?g demo_to_datetime)))"
    by (rule conjunct1 [OF conjunct2 [OF r]])
  have "length (map fst (filter (\<lambda>loc. \<not> isl (request ?g (snd loc))) kyushu_capitals)) = 6"
    unfolding ok by simp
  then have six: "length (filter (\<lambda>loc. \<not> isl (request ?g (snd loc))) kyushu_capitals) = 6"
    by simp
  have three: "length (rows (fst (fetch_weather_data ?g demo_to_datetime))) = 6 * 2"
    using conjunct2 [OF conjunct2 [OF r]] six by simp
  from a one two three show ?thesis by (intro conjI)
qed

end
